theory Spec2Isabelle
  imports Main
begin

section \<open>The expression layer of CVXPY: \<^verbatim>\<open>cvxpy/expressions/expression.py\<close>\<close>

text \<open>
  \<^verbatim>\<open>Expression\<close> is an abstract base class. It leaves \<^verbatim>\<open>size\<close>, \<^verbatim>\<open>variables()\<close>,
  \<^verbatim>\<open>is_convex()\<close>, \<^verbatim>\<open>is_concave()\<close>, \<^verbatim>\<open>is_positive()\<close> and \<^verbatim>\<open>is_negative()\<close> to its
  variants and builds on them: the derived classification (\<^verbatim>\<open>curvature\<close>, \<^verbatim>\<open>sign\<close>,
  \<^verbatim>\<open>is_constant\<close>, \<^verbatim>\<open>is_affine\<close>, \<^verbatim>\<open>is_dcp\<close>, \<^verbatim>\<open>is_scalar\<close>), the transpose property
  \<^verbatim>\<open>T\<close>, the arithmetic operators and the comparison operators.

  The embedding keeps the two layers apart. A node is a term that records which variant
  was constructed from which operands; what the variants' own members return is a
  parameter \<open>M\<close> of every function that calls one of them.
\<close>

subsection \<open>Labels, raw values, nodes\<close>

text \<open>
  Modelled from the spec: the label constants \<^verbatim>\<open>s.CONSTANT\<close>, ..., \<^verbatim>\<open>s.UNKNOWN\<close> of
  \<^verbatim>\<open>cvxpy.settings\<close> (the module is outside this source file). The spec lists them as the values of
  Curvature and Sign, pairwise different; \<^verbatim>\<open>s.UNKNOWN\<close> is the one constant that both
  \<^verbatim>\<open>curvature\<close> and \<^verbatim>\<open>sign\<close> return.
\<close>

datatype label = CONSTANT | AFFINE | CONVEX | CONCAVE | ZERO | POSITIVE | NEGATIVE | UNKNOWN

text \<open>A raw numeric operand that is not an \<^verbatim>\<open>Expression\<close>: a number, a 1-D array or a matrix.\<close>

datatype raw = Num int | Vec "int list" | Mat "int list list"

text \<open>
  The values that the abstract members of one node return, and the attribute
  \<^verbatim>\<open>is_1D_array\<close> that \<^verbatim>\<open>__mul__\<close> reads from a \<^verbatim>\<open>Constant\<close>.
\<close>

record members =
  m_size :: "nat \<times> nat"
  m_variables :: "nat list"
  m_is_convex :: bool
  m_is_concave :: bool
  m_is_positive :: bool
  m_is_negative :: bool
  m_is_1D_array :: bool

text \<open>
  One constructor for each variant that this file constructs through \<^verbatim>\<open>types\<close>:
  \<^verbatim>\<open>types.constant()(v)\<close>, \<^verbatim>\<open>types.add_expr()([a, b])\<close>, \<^verbatim>\<open>types.neg_expr()(a)\<close>,
  \<^verbatim>\<open>types.mul_expr()(a, b)\<close>, \<^verbatim>\<open>types.rmul_expr()(a, b)\<close>, \<^verbatim>\<open>types.div_expr()(a, b)\<close>,
  \<^verbatim>\<open>types.transpose()(a)\<close>. \<open>Leaf i r c\<close> is a node of a variant defined elsewhere, made
  from no operand of this file's: the node number \<open>i\<close>, declared with \<open>r\<close> rows and \<open>c\<close>
  columns.
\<close>

datatype expr =
    Constant raw
  | Leaf nat nat nat
  | AddExpression "expr list"
  | NegExpression expr
  | MulExpression expr expr
  | RMulExpression expr expr
  | DivExpression expr expr
  | transpose expr

type_synonym impl = "expr \<Rightarrow> members"

abbreviation size_of :: "impl \<Rightarrow> expr \<Rightarrow> nat \<times> nat" where
  "size_of M e \<equiv> m_size (M e)"

abbreviation variables :: "impl \<Rightarrow> expr \<Rightarrow> nat list" where
  "variables M e \<equiv> m_variables (M e)"

abbreviation is_convex :: "impl \<Rightarrow> expr \<Rightarrow> bool" where
  "is_convex M e \<equiv> m_is_convex (M e)"

abbreviation is_concave :: "impl \<Rightarrow> expr \<Rightarrow> bool" where
  "is_concave M e \<equiv> m_is_concave (M e)"

abbreviation is_positive :: "impl \<Rightarrow> expr \<Rightarrow> bool" where
  "is_positive M e \<equiv> m_is_positive (M e)"

abbreviation is_negative :: "impl \<Rightarrow> expr \<Rightarrow> bool" where
  "is_negative M e \<equiv> m_is_negative (M e)"

abbreviation is_1D_array :: "impl \<Rightarrow> expr \<Rightarrow> bool" where
  "is_1D_array M e \<equiv> m_is_1D_array (M e)"

text \<open>\<^verbatim>\<open>isinstance(self, types.constant())\<close>\<close>

fun isinstance_constant :: "expr \<Rightarrow> bool" where
  "isinstance_constant (Constant v) = True"
| "isinstance_constant e = False"

subsection \<open>Sign and curvature\<close>

definition is_zero :: "impl \<Rightarrow> expr \<Rightarrow> bool" where
  "is_zero M e = (is_positive M e \<and> is_negative M e)"

definition sign :: "impl \<Rightarrow> expr \<Rightarrow> label" where
  "sign M e =
     (if is_zero M e then ZERO
      else if is_positive M e then POSITIVE
      else if is_negative M e then NEGATIVE
      else UNKNOWN)"

definition is_constant :: "impl \<Rightarrow> expr \<Rightarrow> bool" where
  "is_constant M e = (length (variables M e) = 0 \<or> is_zero M e)"

definition is_affine :: "impl \<Rightarrow> expr \<Rightarrow> bool" where
  "is_affine M e = (is_constant M e \<or> (is_convex M e \<and> is_concave M e))"

definition curvature :: "impl \<Rightarrow> expr \<Rightarrow> label" where
  "curvature M e =
     (if is_constant M e then CONSTANT
      else if is_affine M e then AFFINE
      else if is_convex M e then CONVEX
      else if is_concave M e then CONCAVE
      else UNKNOWN)"

definition is_dcp :: "impl \<Rightarrow> expr \<Rightarrow> bool" where
  "is_dcp M e = (is_convex M e \<or> is_concave M e)"

subsection \<open>Shape queries and transpose\<close>

definition is_scalar :: "impl \<Rightarrow> expr \<Rightarrow> bool" where
  "is_scalar M e = (size_of M e = (1, 1))"

definition is_vector :: "impl \<Rightarrow> expr \<Rightarrow> bool" where
  "is_vector M e = (min (fst (size_of M e)) (snd (size_of M e)) = 1)"

definition is_matrix :: "impl \<Rightarrow> expr \<Rightarrow> bool" where
  "is_matrix M e = (fst (size_of M e) > 1 \<and> snd (size_of M e) > 1)"

text \<open>The property \<^verbatim>\<open>T\<close>: the transpose of a scalar is that scalar.\<close>

definition T :: "impl \<Rightarrow> expr \<Rightarrow> expr" where
  "T M e = (if is_scalar M e then e else transpose e)"

subsection \<open>Casting and the arithmetic operators\<close>

text \<open>
  The right operand of an operator is an \<^verbatim>\<open>Expression\<close> or a raw value. The decorator
  \<^verbatim>\<open>_cast_other\<close> passes it through \<^verbatim>\<open>cast_to_const\<close> before the operator's body runs;
  each operator below does so in its first step.
\<close>

datatype operand = Expr expr | Raw raw

fun cast_to_const :: "operand \<Rightarrow> expr" where
  "cast_to_const (Expr e) = e"
| "cast_to_const (Raw v) = Constant v"

datatype error = DCPError string

text \<open>
  The operators are named after the methods: \<open>op_add\<close> is \<^verbatim>\<open>__add__\<close>, \<open>op_rsub\<close> is
  \<^verbatim>\<open>__rsub__\<close>, and so on. Where a body applies a Python operator to two expressions
  (\<^verbatim>\<open>self + -other\<close>, \<^verbatim>\<open>other - self\<close>, \<^verbatim>\<open>other * self\<close>, \<^verbatim>\<open>other / self\<close>) the call is to the
  method of the left one.
\<close>

definition op_add :: "expr \<Rightarrow> operand \<Rightarrow> expr" where
  "op_add self other = AddExpression [self, cast_to_const other]"

definition op_radd :: "expr \<Rightarrow> operand \<Rightarrow> expr" where
  "op_radd self other = op_add (cast_to_const other) (Expr self)"

definition op_neg :: "expr \<Rightarrow> expr" where
  "op_neg self = NegExpression self"

definition op_sub :: "expr \<Rightarrow> operand \<Rightarrow> expr" where
  "op_sub self other = op_add self (Expr (op_neg (cast_to_const other)))"

definition op_rsub :: "expr \<Rightarrow> operand \<Rightarrow> expr" where
  "op_rsub self other = op_sub (cast_to_const other) (Expr self)"

definition op_mul :: "impl \<Rightarrow> expr \<Rightarrow> operand \<Rightarrow> error + expr" where
  "op_mul M self other0 =
     (let other = cast_to_const other0 in
      if \<not> is_constant M self \<and> \<not> is_constant M other
        then Inl (DCPError ''Cannot multiply two non-constants.'')
      else if is_constant M self
        then (let self' =
                (if fst (size_of M self) = fst (size_of M other) \<and>
                    snd (size_of M self) \<noteq> fst (size_of M self) \<and>
                    isinstance_constant self \<and> is_1D_array M self
                 then T M self else self)
              in Inr (MulExpression self' other))
      else if is_scalar M self \<or> is_scalar M other
        then Inr (MulExpression other self)
      else Inr (RMulExpression self other))"

definition op_rmul :: "impl \<Rightarrow> expr \<Rightarrow> operand \<Rightarrow> error + expr" where
  "op_rmul M self other = op_mul M (cast_to_const other) (Expr self)"

definition op_div :: "impl \<Rightarrow> expr \<Rightarrow> operand \<Rightarrow> error + expr" where
  "op_div M self other0 =
     (let other = cast_to_const other0 in
      if is_constant M other \<and> is_scalar M other
        then Inr (DivExpression self other)
      else Inl (DCPError ''Can only divide by a scalar constant.''))"

definition op_truediv :: "impl \<Rightarrow> expr \<Rightarrow> operand \<Rightarrow> error + expr" where
  "op_truediv M self other = op_div M self (Expr (cast_to_const other))"

definition op_rdiv :: "impl \<Rightarrow> expr \<Rightarrow> operand \<Rightarrow> error + expr" where
  "op_rdiv M self other = op_div M (cast_to_const other) (Expr self)"

definition op_rtruediv :: "impl \<Rightarrow> expr \<Rightarrow> operand \<Rightarrow> error + expr" where
  "op_rtruediv M self other = op_truediv M (cast_to_const other) (Expr self)"

subsection \<open>The comparison operators\<close>

datatype constraint =
    EqConstraint expr expr
  | LeqConstraint expr expr
  | PSDConstraint expr expr

definition op_eq :: "expr \<Rightarrow> operand \<Rightarrow> constraint" where
  "op_eq self other = EqConstraint self (cast_to_const other)"

definition op_le :: "expr \<Rightarrow> operand \<Rightarrow> constraint" where
  "op_le self other = LeqConstraint self (cast_to_const other)"

definition op_lt :: "expr \<Rightarrow> operand \<Rightarrow> constraint" where
  "op_lt self other = op_le self other"

definition op_ge :: "expr \<Rightarrow> operand \<Rightarrow> constraint" where
  "op_ge self other = op_le (cast_to_const other) (Expr self)"

definition op_gt :: "expr \<Rightarrow> operand \<Rightarrow> constraint" where
  "op_gt self other = op_ge self other"

definition op_rshift :: "expr \<Rightarrow> operand \<Rightarrow> constraint" where
  "op_rshift self other = PSDConstraint self (cast_to_const other)"

definition op_rrshift :: "expr \<Rightarrow> operand \<Rightarrow> constraint" where
  "op_rrshift self other = PSDConstraint (cast_to_const other) self"

definition op_lshift :: "expr \<Rightarrow> operand \<Rightarrow> constraint" where
  "op_lshift self other = PSDConstraint (cast_to_const other) self"

definition op_rlshift :: "expr \<Rightarrow> operand \<Rightarrow> constraint" where
  "op_rlshift self other = PSDConstraint self (cast_to_const other)"

subsection \<open>The curvature rule in the words of the specification\<close>

text \<open>
  The specification describes \<^verbatim>\<open>curvature\<close> as a priority order in which the first
  predicate that holds wins. \<open>curvature_first_match\<close> is that description, written down
  independently of the code: the predicates with their labels, in priority order, searched
  from the front.
\<close>

definition curvature_priority :: "((impl \<Rightarrow> expr \<Rightarrow> bool) \<times> label) list" where
  "curvature_priority =
     [(is_constant, CONSTANT), (is_affine, AFFINE), (is_convex, CONVEX), (is_concave, CONCAVE)]"

definition curvature_first_match :: "impl \<Rightarrow> expr \<Rightarrow> label" where
  "curvature_first_match M n =
     (case find (\<lambda>(p, l). p M n) curvature_priority of
        Some (p, l) \<Rightarrow> l
      | None \<Rightarrow> UNKNOWN)"

subsection \<open>What the specification says of the variants\<close>

text \<open>
  Modelled from the spec: the answers of the variants to \<^verbatim>\<open>is_convex\<close> and \<^verbatim>\<open>is_concave\<close>
  (every variant is defined outside this source file). The data model of the
  specification orders the curvatures, "CONSTANT \<open>\<subset>\<close> AFFINE \<open>\<subset>\<close> {CONVEX, CONCAVE} \<open>\<subset>\<close> UNKNOWN
  (AFFINE is both convex and concave)". That a constant node is affine is the code of
  \<^verbatim>\<open>is_affine\<close>; that an affine node is convex and concave is left to the variants. An
  assignment \<open>M\<close> respects the order when every affine node answers so.
\<close>

definition curvature_lattice :: "impl \<Rightarrow> bool" where
  "curvature_lattice M = (\<forall>n. is_affine M n \<longrightarrow> is_convex M n \<and> is_concave M n)"

text \<open>
  Modelled from the spec: the members of a node of the transpose variant (the class behind
  \<^verbatim>\<open>types.transpose()\<close> is outside this source file). The rule table of the specification
  gives them: "curvature and sign unchanged; shape swapped". An assignment \<open>M\<close> follows the
  rule when every transpose node answers so.
\<close>

definition transpose_rule :: "impl \<Rightarrow> bool" where
  "transpose_rule M =
     (\<forall>a. size_of M (transpose a) = (snd (size_of M a), fst (size_of M a)) \<and>
          curvature M (transpose a) = curvature M a \<and>
          sign M (transpose a) = sign M a)"

subsection \<open>An assignment of the abstract members, for the examples\<close>

text \<open>
  Modelled from the spec: the members of a node of the constant variant (the class behind
  \<^verbatim>\<open>types.constant()\<close> is outside this source file). The casting layer of the
  specification: a constant node has its "dimensions inferred from the value's shape, sign
  inferred from the value's sign, curvature fixed as CONSTANT". A 1-D array of length \<open>n\<close>
  is held as a column of \<open>n\<close> rows and remembered as 1-D.
\<close>

fun raw_shape :: "raw \<Rightarrow> nat \<times> nat" where
  "raw_shape (Num x) = (1, 1)"
| "raw_shape (Vec xs) = (length xs, 1)"
| "raw_shape (Mat rows) = (length rows, (case rows of [] \<Rightarrow> 0 | r # _ \<Rightarrow> length r))"

fun raw_entries :: "raw \<Rightarrow> int list" where
  "raw_entries (Num x) = [x]"
| "raw_entries (Vec xs) = xs"
| "raw_entries (Mat rows) = concat rows"

fun raw_is_1D :: "raw \<Rightarrow> bool" where
  "raw_is_1D (Vec xs) = True"
| "raw_is_1D v = False"

definition constant_members :: "raw \<Rightarrow> members" where
  "constant_members v =
     \<lparr> m_size = raw_shape v, m_variables = [],
       m_is_convex = True, m_is_concave = True,
       m_is_positive = list_all (\<lambda>x. 0 \<le> x) (raw_entries v),
       m_is_negative = list_all (\<lambda>x. x \<le> 0) (raw_entries v),
       m_is_1D_array = raw_is_1D v \<rparr>"

text \<open>
  A leaf of the examples is an \<open>r\<close> by \<open>c\<close> node with the one free variable \<open>i\<close>, convex and
  concave, of unknown sign.
\<close>

definition leaf_members :: "nat \<Rightarrow> nat \<Rightarrow> nat \<Rightarrow> members" where
  "leaf_members i r c =
     \<lparr> m_size = (r, c), m_variables = [i],
       m_is_convex = True, m_is_concave = True,
       m_is_positive = False, m_is_negative = False,
       m_is_1D_array = False \<rparr>"

text \<open>
  The answer taken for the variants that no example queries: a scalar with a free
  variable, of unknown curvature and sign.
\<close>

definition unknown_members :: members where
  "unknown_members =
     \<lparr> m_size = (1, 1), m_variables = [0],
       m_is_convex = False, m_is_concave = False,
       m_is_positive = False, m_is_negative = False,
       m_is_1D_array = False \<rparr>"

text \<open>
  The assignment \<open>ex\<close>: constants and leaves answer as above, a transpose node answers as
  its operand with the shape swapped.
\<close>

fun ex :: "expr \<Rightarrow> members" where
  "ex (Constant v) = constant_members v"
| "ex (Leaf i r c) = leaf_members i r c"
| "ex (transpose a) = (ex a)\<lparr> m_size := (snd (m_size (ex a)), fst (m_size (ex a))) \<rparr>"
| "ex e = unknown_members"

text \<open>
  The assignment \<open>unclassified\<close>: every node is a scalar without free variables that its
  variant reports neither convex nor concave. It does not respect the order of the
  curvatures.
\<close>

definition unclassified :: "expr \<Rightarrow> members" where
  "unclassified e =
     \<lparr> m_size = (1, 1), m_variables = [],
       m_is_convex = False, m_is_concave = False,
       m_is_positive = False, m_is_negative = False,
       m_is_1D_array = False \<rparr>"

section \<open>Properties\<close>

subsection \<open>Classification\<close>

lemma is_constant_curvature: "is_constant M n \<Longrightarrow> curvature M n = CONSTANT"
  by (simp add: curvature_def)

lemma is_constant_is_affine: "is_constant M n \<Longrightarrow> is_affine M n"
  by (simp add: is_affine_def)

lemma sign_cases:
  "sign M n =
     (if is_positive M n \<and> is_negative M n then ZERO
      else if is_positive M n then POSITIVE
      else if is_negative M n then NEGATIVE
      else UNKNOWN)"
  by (simp add: sign_def is_zero_def)

lemma not_scalar_if_not_square:
  "snd (size_of M a) \<noteq> fst (size_of M a) \<Longrightarrow> \<not> is_scalar M a"
  by (auto simp: is_scalar_def)

lemma constant_members_simps [simp]:
  "m_size (constant_members v) = raw_shape v"
  "m_variables (constant_members v) = []"
  "m_is_convex (constant_members v) = True"
  "m_is_concave (constant_members v) = True"
  "m_is_positive (constant_members v) = list_all (\<lambda>x. 0 \<le> x) (raw_entries v)"
  "m_is_negative (constant_members v) = list_all (\<lambda>x. x \<le> 0) (raw_entries v)"
  "m_is_1D_array (constant_members v) = raw_is_1D v"
  by (simp_all add: constant_members_def)

lemma leaf_members_simps [simp]:
  "m_size (leaf_members i r c) = (r, c)"
  "m_variables (leaf_members i r c) = [i]"
  "m_is_convex (leaf_members i r c) = True"
  "m_is_concave (leaf_members i r c) = True"
  "m_is_positive (leaf_members i r c) = False"
  "m_is_negative (leaf_members i r c) = False"
  "m_is_1D_array (leaf_members i r c) = False"
  by (simp_all add: leaf_members_def)

lemma ex_Leaf_not_constant [simp]: "\<not> is_constant ex (Leaf i r c)"
  by (simp add: is_constant_def is_zero_def)

lemma ex_Constant_is_constant [simp]: "is_constant ex (Constant v)"
  by (simp add: is_constant_def)

lemma ex_transpose_rule: "transpose_rule ex"
  by (simp add: transpose_rule_def curvature_def sign_def is_zero_def is_constant_def
      is_affine_def)

lemma ex_convex_concave: "is_affine ex n \<Longrightarrow> is_convex ex n \<and> is_concave ex n"
  by (induction n)
    (simp_all add: is_affine_def is_constant_def is_zero_def unknown_members_def)

lemma ex_curvature_lattice: "curvature_lattice ex"
  by (simp add: curvature_lattice_def ex_convex_concave)

text \<open>
  Without the order of the curvatures nothing makes a constant node DCP: under
  \<open>unclassified\<close> every node is constant, of curvature CONSTANT, and not DCP.
\<close>

lemma unclassified_not_dcp:
  "is_constant unclassified n \<and> curvature unclassified n = CONSTANT \<and>
   \<not> is_dcp unclassified n \<and> \<not> curvature_lattice unclassified"
  by (simp add: is_constant_def curvature_def is_dcp_def curvature_lattice_def is_affine_def
      unclassified_def)

text \<open>
  C2. For every node, \<^verbatim>\<open>curvature\<close> is computed from the predicates by the fixed priority
  order CONSTANT, AFFINE, CONVEX, CONCAVE: it is the label of the first of
  \<^verbatim>\<open>is_constant\<close>, \<^verbatim>\<open>is_affine\<close>, \<^verbatim>\<open>is_convex\<close>, \<^verbatim>\<open>is_concave\<close> that holds, and UNKNOWN
  when none holds.
\<close>

theorem curvature_is_first_match:
  "curvature M n = curvature_first_match M n \<and>
   (curvature M n = UNKNOWN \<longleftrightarrow>
      \<not> is_constant M n \<and> \<not> is_affine M n \<and> \<not> is_convex M n \<and> \<not> is_concave M n)"
  by (simp add: curvature_def curvature_first_match_def curvature_priority_def)

theorem curvature_is_first_match_witness:
  "curvature_first_match ex (Constant (Num 5)) = CONSTANT \<and>
   curvature_first_match ex (Leaf 0 1 1) = AFFINE \<and>
   curvature_first_match ex (AddExpression []) = UNKNOWN"
  using curvature_is_first_match [of ex "Constant (Num 5)"]
    curvature_is_first_match [of ex "Leaf 0 1 1"]
    curvature_is_first_match [of ex "AddExpression []"]
  by (simp add: curvature_def is_affine_def is_constant_def is_zero_def unknown_members_def)

text \<open>
  C6. For every node, \<^verbatim>\<open>sign\<close> is ZERO exactly when \<^verbatim>\<open>is_positive\<close> and \<^verbatim>\<open>is_negative\<close> both
  hold; otherwise it is POSITIVE if \<^verbatim>\<open>is_positive\<close> holds, else NEGATIVE if
  \<^verbatim>\<open>is_negative\<close> holds, else UNKNOWN.
\<close>

theorem sign_zero_iff:
  "(sign M n = ZERO \<longleftrightarrow> is_positive M n \<and> is_negative M n) \<and>
   (\<not> (is_positive M n \<and> is_negative M n) \<longrightarrow>
      sign M n = (if is_positive M n then POSITIVE
                  else if is_negative M n then NEGATIVE
                  else UNKNOWN))"
  by (simp add: sign_cases)

theorem sign_zero_iff_witness:
  "\<not> (is_positive ex (Constant (Num 5)) \<and> is_negative ex (Constant (Num 5))) \<and>
   sign ex (Constant (Num 5)) = POSITIVE \<and>
   sign ex (Constant (Vec [0, 0])) = ZERO"
  using sign_zero_iff [of ex "Constant (Num 5)"] sign_zero_iff [of ex "Constant (Vec [0, 0])"]
  by simp

text \<open>
  C7. For every node with \<^verbatim>\<open>is_constant\<close> true, \<^verbatim>\<open>curvature\<close> is CONSTANT and \<^verbatim>\<open>is_dcp\<close> is
  true, where \<^verbatim>\<open>is_dcp\<close> holds if and only if \<^verbatim>\<open>is_convex\<close> or \<^verbatim>\<open>is_concave\<close> holds; the
  variants answering in the order of the curvatures.
\<close>

theorem constant_is_dcp:
  "(is_dcp M n \<longleftrightarrow> is_convex M n \<or> is_concave M n) \<and>
   (is_constant M n \<longrightarrow> curvature M n = CONSTANT) \<and>
   (curvature_lattice M \<and> is_constant M n \<longrightarrow> is_dcp M n)"
proof (intro conjI impI)
  show "is_dcp M n \<longleftrightarrow> is_convex M n \<or> is_concave M n"
    by (simp add: is_dcp_def)
next
  assume "is_constant M n"
  then show "curvature M n = CONSTANT"
    by (rule is_constant_curvature)
next
  assume h: "curvature_lattice M \<and> is_constant M n"
  then have "is_affine M n"
    by (simp add: is_constant_is_affine)
  with h have "is_convex M n \<and> is_concave M n"
    by (simp add: curvature_lattice_def)
  then show "is_dcp M n"
    by (simp add: is_dcp_def)
qed

theorem constant_is_dcp_witness:
  "curvature_lattice ex \<and>
   is_constant ex (Constant (Num 5)) \<and>
   curvature ex (Constant (Num 5)) = CONSTANT \<and>
   is_dcp ex (Constant (Num 5))"
  using constant_is_dcp [of ex "Constant (Num 5)"] ex_curvature_lattice
  by simp

subsection \<open>Transpose\<close>

lemma T_scalar: "is_scalar M a \<Longrightarrow> T M a = a"
  by (simp add: T_def)

lemma transpose_rule_T:
  assumes "transpose_rule M"
  shows "size_of M (T M a) = (snd (size_of M a), fst (size_of M a))"
    and "curvature M (T M a) = curvature M a"
    and "sign M (T M a) = sign M a"
  using assms by (auto simp: T_def transpose_rule_def is_scalar_def)

text \<open>
  C8. Transposing a scalar expression returns the same node. For every square or scalar
  expression \<open>a\<close>, the transpose of the transpose of \<open>a\<close> has the dimensions, the curvature
  and the sign of \<open>a\<close>, the transpose variant answering as the rule table says.
\<close>

theorem transpose_twice:
  "(is_scalar M a \<longrightarrow> T M a = a) \<and>
   (transpose_rule M \<and> (is_scalar M a \<or> fst (size_of M a) = snd (size_of M a)) \<longrightarrow>
      size_of M (T M (T M a)) = size_of M a \<and>
      curvature M (T M (T M a)) = curvature M a \<and>
      sign M (T M (T M a)) = sign M a)"
proof (intro conjI impI)
  assume "is_scalar M a"
  then show "T M a = a" by (rule T_scalar)
next
  assume h: "transpose_rule M \<and> (is_scalar M a \<or> fst (size_of M a) = snd (size_of M a))"
  then have r: "transpose_rule M" by simp
  have "size_of M (T M (T M a)) = (snd (size_of M (T M a)), fst (size_of M (T M a)))"
    by (rule transpose_rule_T(1) [OF r])
  also have "\<dots> = size_of M a"
    by (simp add: transpose_rule_T(1) [OF r])
  finally show "size_of M (T M (T M a)) = size_of M a" .
  show "curvature M (T M (T M a)) = curvature M a"
    by (simp add: transpose_rule_T(2) [OF r])
  show "sign M (T M (T M a)) = sign M a"
    by (simp add: transpose_rule_T(3) [OF r])
qed

theorem transpose_twice_witness:
  "is_scalar ex (Leaf 0 1 1) \<and> T ex (Leaf 0 1 1) = Leaf 0 1 1 \<and>
   transpose_rule ex \<and> fst (size_of ex (Leaf 1 2 2)) = snd (size_of ex (Leaf 1 2 2)) \<and>
   T ex (T ex (Leaf 1 2 2)) = transpose (transpose (Leaf 1 2 2)) \<and>
   size_of ex (T ex (T ex (Leaf 1 2 2))) = (2, 2) \<and>
   curvature ex (T ex (T ex (Leaf 1 2 2))) = curvature ex (Leaf 1 2 2) \<and>
   sign ex (T ex (T ex (Leaf 1 2 2))) = sign ex (Leaf 1 2 2)"
  using transpose_twice [of ex "Leaf 0 1 1"] transpose_twice [of ex "Leaf 1 2 2"]
    ex_transpose_rule
  by (simp add: is_scalar_def T_def)

subsection \<open>Multiplication\<close>

text \<open>The three outcomes of \<^verbatim>\<open>__mul__\<close>, one lemma for each branch of the code.\<close>

lemma op_mul_both_nonconstant:
  "\<not> is_constant M a \<Longrightarrow> \<not> is_constant M (cast_to_const b) \<Longrightarrow>
     op_mul M a b = Inl (DCPError ''Cannot multiply two non-constants.'')"
  by (simp add: op_mul_def)

lemma op_mul_constant_left:
  "is_constant M a \<Longrightarrow>
     op_mul M a b =
       Inr (MulExpression
         (if fst (size_of M a) = fst (size_of M (cast_to_const b)) \<and>
             snd (size_of M a) \<noteq> fst (size_of M a) \<and>
             isinstance_constant a \<and> is_1D_array M a
          then T M a else a)
         (cast_to_const b))"
  by (simp add: op_mul_def Let_def)

lemma op_mul_constant_right:
  "\<not> is_constant M a \<Longrightarrow> is_constant M (cast_to_const b) \<Longrightarrow>
     op_mul M a b =
       (if is_scalar M a \<or> is_scalar M (cast_to_const b)
        then Inr (MulExpression (cast_to_const b) a)
        else Inr (RMulExpression a (cast_to_const b)))"
  by (simp add: op_mul_def Let_def)

text \<open>
  C1. For every pair of expressions neither of which is constant, the product raises
  \<^verbatim>\<open>DCPError\<close>, and no node is returned.
\<close>

theorem mul_nonconstants_raises:
  "\<not> is_constant M a \<Longrightarrow> \<not> is_constant M b \<Longrightarrow>
     op_mul M a (Expr b) = Inl (DCPError ''Cannot multiply two non-constants.'') \<and>
     (\<forall>n. op_mul M a (Expr b) \<noteq> Inr n)"
  by (simp add: op_mul_both_nonconstant)

theorem mul_nonconstants_raises_witness:
  "\<not> is_constant ex (Leaf 0 1 1) \<and> \<not> is_constant ex (Leaf 1 1 1) \<and>
   op_mul ex (Leaf 0 1 1) (Expr (Leaf 1 1 1)) =
     Inl (DCPError ''Cannot multiply two non-constants.'')"
  using mul_nonconstants_raises [of ex "Leaf 0 1 1" "Leaf 1 1 1"]
  by simp

text \<open>
  C3, as amended. In the product of two operands of which exactly one is scalar, the
  scalar operand is placed as the left operand of the multiplication node when it is
  constant and the left operand of the product is either that scalar or not constant: a
  constant scalar on the left stays there, and a constant scalar on the right of a
  non-constant expression is moved to the left.
\<close>

theorem mul_constant_scalar_left:
  "(is_scalar M a \<and> \<not> is_scalar M (cast_to_const b) \<and> is_constant M a \<longrightarrow>
      op_mul M a b = Inr (MulExpression a (cast_to_const b))) \<and>
   (\<not> is_scalar M a \<and> is_scalar M (cast_to_const b) \<and>
    \<not> is_constant M a \<and> is_constant M (cast_to_const b) \<longrightarrow>
      op_mul M a b = Inr (MulExpression (cast_to_const b) a))"
  by (auto simp: op_mul_constant_left op_mul_constant_right is_scalar_def)

theorem mul_constant_scalar_left_witness:
  "is_scalar ex (Constant (Num 5)) \<and> \<not> is_scalar ex (Leaf 0 2 2) \<and>
   is_constant ex (Constant (Num 5)) \<and> \<not> is_constant ex (Leaf 0 2 2) \<and>
   op_mul ex (Constant (Num 5)) (Expr (Leaf 0 2 2)) =
     Inr (MulExpression (Constant (Num 5)) (Leaf 0 2 2)) \<and>
   op_mul ex (Leaf 0 2 2) (Raw (Num 5)) =
     Inr (MulExpression (Constant (Num 5)) (Leaf 0 2 2))"
  using mul_constant_scalar_left [of ex "Constant (Num 5)" "Expr (Leaf 0 2 2)"]
    mul_constant_scalar_left [of ex "Leaf 0 2 2" "Raw (Num 5)"]
  by (simp add: is_scalar_def)

text \<open>
  C3, as stated, fails: a constant left operand stays on the left whether or not it is the
  scalar one. The product of a constant 2 by 2 matrix and a scalar expression is the
  multiplication node with the matrix on the left and the scalar on the right.
\<close>

theorem mul_scalar_right_counterexample:
  "\<not> is_scalar ex (Constant (Mat [[1, 2], [3, 4]])) \<and>
   is_scalar ex (Leaf 0 1 1) \<and>
   op_mul ex (Constant (Mat [[1, 2], [3, 4]])) (Expr (Leaf 0 1 1)) =
     Inr (MulExpression (Constant (Mat [[1, 2], [3, 4]])) (Leaf 0 1 1)) \<and>
   op_mul ex (Constant (Mat [[1, 2], [3, 4]])) (Expr (Leaf 0 1 1)) \<noteq>
     Inr (MulExpression (Leaf 0 1 1) (Constant (Mat [[1, 2], [3, 4]])))"
  by (simp add: op_mul_constant_left is_scalar_def)

text \<open>
  C4. In a product whose left operand \<open>a\<close> is constant: when the row count of \<open>a\<close> equals
  the row count of \<open>b\<close>, the shape of \<open>a\<close> is not square, and \<open>a\<close> is a \<^verbatim>\<open>Constant\<close> made
  from a 1-D array, the multiplication node is built from the transpose of \<open>a\<close>; in every
  other case it is built from \<open>a\<close> itself.
\<close>

theorem mul_constant_1D_transposed:
  "is_constant M a \<Longrightarrow>
     (fst (size_of M a) = fst (size_of M (cast_to_const b)) \<and>
      snd (size_of M a) \<noteq> fst (size_of M a) \<and>
      isinstance_constant a \<and> is_1D_array M a \<longrightarrow>
        T M a = transpose a \<and>
        op_mul M a b = Inr (MulExpression (transpose a) (cast_to_const b))) \<and>
     (\<not> (fst (size_of M a) = fst (size_of M (cast_to_const b)) \<and>
         snd (size_of M a) \<noteq> fst (size_of M a) \<and>
         isinstance_constant a \<and> is_1D_array M a) \<longrightarrow>
        op_mul M a b = Inr (MulExpression a (cast_to_const b)))"
proof (intro conjI impI)
  assume c: "is_constant M a"
    and h: "fst (size_of M a) = fst (size_of M (cast_to_const b)) \<and>
      snd (size_of M a) \<noteq> fst (size_of M a) \<and>
      isinstance_constant a \<and> is_1D_array M a"
  from h have "\<not> is_scalar M a" by (simp add: not_scalar_if_not_square)
  then show t: "T M a = transpose a" by (simp add: T_def)
  from c h t show "op_mul M a b = Inr (MulExpression (transpose a) (cast_to_const b))"
    by (simp add: op_mul_constant_left)
next
  assume c: "is_constant M a"
    and h: "\<not> (fst (size_of M a) = fst (size_of M (cast_to_const b)) \<and>
      snd (size_of M a) \<noteq> fst (size_of M a) \<and>
      isinstance_constant a \<and> is_1D_array M a)"
  from h have "(if fst (size_of M a) = fst (size_of M (cast_to_const b)) \<and>
             snd (size_of M a) \<noteq> fst (size_of M a) \<and>
             isinstance_constant a \<and> is_1D_array M a
          then T M a else a) = a"
    by (simp only: if_False)
  with c show "op_mul M a b = Inr (MulExpression a (cast_to_const b))"
    by (simp only: op_mul_constant_left)
qed

theorem mul_constant_1D_transposed_witness:
  "is_constant ex (Constant (Vec [1, 2, 3])) \<and>
   fst (size_of ex (Constant (Vec [1, 2, 3]))) = fst (size_of ex (Leaf 0 3 1)) \<and>
   snd (size_of ex (Constant (Vec [1, 2, 3]))) \<noteq> fst (size_of ex (Constant (Vec [1, 2, 3]))) \<and>
   isinstance_constant (Constant (Vec [1, 2, 3])) \<and>
   is_1D_array ex (Constant (Vec [1, 2, 3])) \<and>
   op_mul ex (Constant (Vec [1, 2, 3])) (Expr (Leaf 0 3 1)) =
     Inr (MulExpression (transpose (Constant (Vec [1, 2, 3]))) (Leaf 0 3 1)) \<and>
   op_mul ex (Constant (Mat [[1], [2], [3]])) (Expr (Leaf 0 3 1)) =
     Inr (MulExpression (Constant (Mat [[1], [2], [3]])) (Leaf 0 3 1))"
  using mul_constant_1D_transposed [of ex "Constant (Vec [1, 2, 3])" "Expr (Leaf 0 3 1)"]
    mul_constant_1D_transposed [of ex "Constant (Mat [[1], [2], [3]])" "Expr (Leaf 0 3 1)"]
  by simp

subsection \<open>Division\<close>

text \<open>
  C5. The quotient of \<open>a\<close> by \<open>b\<close> is a division node if and only if \<open>b\<close>, once cast, is
  constant and scalar; otherwise \<^verbatim>\<open>DCPError\<close> is raised and no node is returned. The same
  holds of \<^verbatim>\<open>__truediv__\<close>.
\<close>

theorem div_iff_scalar_constant:
  "((\<exists>n. op_div M a b = Inr n) \<longleftrightarrow>
      is_constant M (cast_to_const b) \<and> is_scalar M (cast_to_const b)) \<and>
   (is_constant M (cast_to_const b) \<and> is_scalar M (cast_to_const b) \<longrightarrow>
      op_div M a b = Inr (DivExpression a (cast_to_const b))) \<and>
   (\<not> (is_constant M (cast_to_const b) \<and> is_scalar M (cast_to_const b)) \<longrightarrow>
      op_div M a b = Inl (DCPError ''Can only divide by a scalar constant.'')) \<and>
   op_truediv M a b = op_div M a b"
  by (auto simp: op_div_def op_truediv_def Let_def)

theorem div_iff_scalar_constant_witness:
  "is_constant ex (Constant (Num 2)) \<and> is_scalar ex (Constant (Num 2)) \<and>
   op_div ex (Leaf 0 2 2) (Raw (Num 2)) =
     Inr (DivExpression (Leaf 0 2 2) (Constant (Num 2))) \<and>
   is_constant ex (Constant (Vec [1, 2])) \<and> \<not> is_scalar ex (Constant (Vec [1, 2])) \<and>
   op_div ex (Leaf 0 2 2) (Raw (Vec [1, 2])) =
     Inl (DCPError ''Can only divide by a scalar constant.'') \<and>
   \<not> is_constant ex (Leaf 1 1 1) \<and> is_scalar ex (Leaf 1 1 1) \<and>
   op_div ex (Leaf 0 2 2) (Expr (Leaf 1 1 1)) =
     Inl (DCPError ''Can only divide by a scalar constant.'')"
  using div_iff_scalar_constant [of ex "Leaf 0 2 2" "Raw (Num 2)"]
    div_iff_scalar_constant [of ex "Leaf 0 2 2" "Raw (Vec [1, 2])"]
    div_iff_scalar_constant [of ex "Leaf 0 2 2" "Expr (Leaf 1 1 1)"]
  by (simp add: is_scalar_def)

subsection \<open>Subtraction\<close>

text \<open>
  C10. Subtraction is addition of a negation: \<open>a - b\<close> is the sum node of \<open>a\<close> and the
  negation node of the cast \<open>b\<close>, and a number minus an expression is the cast number
  minus the expression. No variant of its own stands for a difference, so the curvature
  and the sign of \<open>a - b\<close> are those of the sum of \<open>a\<close> and the negation.
\<close>

theorem sub_is_add_neg:
  "op_sub a b = op_add a (Expr (op_neg (cast_to_const b))) \<and>
   op_sub a b = AddExpression [a, NegExpression (cast_to_const b)] \<and>
   op_rsub e k = op_sub (cast_to_const k) (Expr e) \<and>
   op_rsub e (Raw v) = AddExpression [Constant v, NegExpression e] \<and>
   curvature M (op_sub a b) = curvature M (op_add a (Expr (op_neg (cast_to_const b)))) \<and>
   sign M (op_sub a b) = sign M (op_add a (Expr (op_neg (cast_to_const b))))"
  by (simp add: op_sub_def op_rsub_def op_add_def op_neg_def)

subsection \<open>Comparisons\<close>

text \<open>
  C9. \<open>a >= b\<close> is the constraint \<open>cast_to_const b <= a\<close>; \<open>a > b\<close> is the constraint of
  \<open>a >= b\<close>, and \<open>a < b\<close> is the constraint of \<open>a <= b\<close>.
\<close>

theorem ge_is_reflected_le:
  "op_ge a b = op_le (cast_to_const b) (Expr a) \<and>
   op_ge a b = LeqConstraint (cast_to_const b) a \<and>
   op_gt a b = op_ge a b \<and>
   op_lt a b = op_le a b \<and>
   op_le a b = LeqConstraint a (cast_to_const b)"
  by (simp add: op_ge_def op_gt_def op_lt_def op_le_def)

end
